theory Spec2Isabelle
  imports Complex_Main
begin

section \<open>The enumeration solver for mpMILP / mpMIQP programs\<close>

text \<open>
  This theory embeds \<^verbatim>\<open>solve_mpmiqp_enumeration\<close> of
  \<^verbatim>\<open>src/ppopt/mp_solvers/mpmiqp_enumeration.py\<close>.  The function enumerates the
  feasible binary combinations of a mixed-integer program, solves one continuous
  sub-problem per combination in a process pool, writes the combination and the index
  lists into every critical region, flattens the regions, and decides from the shape of
  the program whether the 1-D overlap reduction runs.

  The search tree, the substitution, the continuous solver and the 1-D reducer are
  imported by the function from other modules; they are arguments of the model, collected
  in the record \<open>env\<close>.  Each of them may raise, so each returns \<open>error + _\<close>; each is a
  function of its arguments, so a collaborator neither changes the objects it is given
  nor answers differently when asked again.

  Beside the value the function returns (or the exception it raises), the model gives the
  trace of what a run asks of the platform: the core count and the pool.
\<close>

subsection \<open>Data\<close>

text \<open>
  An exception.  \<open>IndexError\<close> is what numpy raises for a row index outside the
  matrix and what a list raises for a position outside it; \<open>Raised msg\<close> is whatever a
  collaborator raises.
\<close>

datatype error = IndexError | Raised string

text \<open>
  The attributes of the program that the function reads: \<^verbatim>\<open>program.H\<close> (a matrix, as its
  list of rows), \<^verbatim>\<open>program.binary_indices\<close>, \<^verbatim>\<open>program.cont_indices\<close>,
  \<^verbatim>\<open>program.num_t()\<close> and the attribute \<^verbatim>\<open>Q\<close>, which only the quadratic programs have:
  \<open>Q = None\<close> is a program without that attribute, so \<^verbatim>\<open>hasattr(program, 'Q')\<close> is
  \<open>Q program \<noteq> None\<close>.  The record is extensible: whatever else a program holds is its
  \<open>more\<close> part, which the function never reads.

  The index lists hold positions counted from 0.  Matrix entries are reals: the rounding
  of floating-point sums is not modelled.
\<close>

record program =
  H :: "real list list"
  binary_indices :: "nat list"
  cont_indices :: "nat list"
  num_t :: nat
  Q :: "real list list option"

text \<open>
  A critical region: what the continuous solver computed (\<open>region\<close>: the polytope and the
  affine policy) and the three attributes the enumeration writes, \<^verbatim>\<open>None\<close> until then.
\<close>

record 'b critical_region =
  region :: 'b
  y_fixation :: "int list option"
  y_indices :: "nat list option"
  x_indices :: "nat list option"

text \<open>\<^verbatim>\<open>Solution(program, critical_regions, is_overlapping)\<close>.\<close>

record ('p, 'b) solution =
  solution_program :: 'p
  critical_regions :: "'b critical_region list"
  is_overlapping :: bool

text \<open>A leaf of the search tree; the function reads its \<^verbatim>\<open>fixed_bins\<close>.\<close>

record leaf =
  fixed_bins :: "int list"

text \<open>
  The collaborators.  \<open>'t\<close> is the search tree, \<open>'c\<close> a continuous sub-problem, \<open>'a\<close> the
  choice of continuous algorithm, \<open>'b\<close> the body of a critical region, \<open>'z\<close> the rest of the
  program.  \<open>num_cpu_cores\<close> is the core count the platform reports.
\<close>

record ('z, 't, 'c, 'a, 'b) env =
  num_cpu_cores :: int
  MITree :: "'z program_scheme \<Rightarrow> nat \<Rightarrow> error + 't"
  get_full_leafs :: "'t \<Rightarrow> error + leaf list"
  generate_substituted_problem :: "'z program_scheme \<Rightarrow> int list \<Rightarrow> error + 'c"
  solve_mpqp :: "'c \<Rightarrow> 'a \<Rightarrow> error + ('c, 'b) solution"
  reduce_overlapping_critical_regions_1d ::
    "'z program_scheme \<Rightarrow> 'b critical_region list \<Rightarrow> error + ('b critical_region list \<times> bool)"

text \<open>
  What the function does to the platform, in the order it does it: the query of the core
  count (line 32), the creation of the pool with its worker count (line 44), and the
  dispatch of \<open>n\<close> sub-problems to it (line 45).
\<close>

datatype event = Num_cpu_cores | New_pool int | Pool_map nat

subsection \<open>Comprehensions and the pool\<close>

text \<open>
  A list comprehension \<^verbatim>\<open>[f(x) for x in xs]\<close> whose \<^verbatim>\<open>f\<close> may raise: the elements are
  computed in order and the first exception ends the comprehension.
\<close>

fun comprehension :: "('x \<Rightarrow> error + 'y) \<Rightarrow> 'x list \<Rightarrow> error + 'y list" where
  "comprehension f [] = Inr []"
| "comprehension f (x # xs) =
     (case f x of
        Inl e \<Rightarrow> Inl e
      | Inr y \<Rightarrow> (case comprehension f xs of Inl e \<Rightarrow> Inl e | Inr ys \<Rightarrow> Inr (y # ys)))"

text \<open>
  \<^verbatim>\<open>Pool(num_cores)\<close>: a pool remembers the worker count it was made with.  The pool is a
  library outside the sources; its creation is taken to succeed for every worker count.
\<close>

datatype pool = Pool int

text \<open>
  Modelled from the spec: the pool's \<^verbatim>\<open>map\<close> (pathos' \<^verbatim>\<open>ProcessingPool\<close>, a library
  outside the sources).  The spec describes an order-preserving parallel map over a
  fixed-size worker pool: result \<open>i\<close> belongs to sub-problem \<open>i\<close> whatever the order of
  completion, the call returns when every solve has returned, and one failing solve aborts
  the whole dispatch.  The worker count therefore has no part in the result.  Of several
  failing solves the model reports the first in input order.
\<close>

fun pool_map :: "pool \<Rightarrow> ('x \<Rightarrow> error + 'y) \<Rightarrow> 'x list \<Rightarrow> error + 'y list" where
  "pool_map pl f [] = Inr []"
| "pool_map pl f (x # xs) =
     (case f x of
        Inl e \<Rightarrow> Inl e
      | Inr y \<Rightarrow> (case pool_map pl f xs of Inl e \<Rightarrow> Inl e | Inr ys \<Rightarrow> Inr (y # ys)))"

subsection \<open>The annotation loops (lines 48 to 57)\<close>

text \<open>\<^verbatim>\<open>xs[i]\<close> on a Python list, for \<open>i \<ge> 0\<close>: the element, or \<^verbatim>\<open>IndexError\<close>.\<close>

definition getitem :: "'x list \<Rightarrow> nat \<Rightarrow> error + 'x" where
  "getitem xs i = (if i < length xs then Inr (xs ! i) else Inl IndexError)"

text \<open>
  The inner loop, \<^verbatim>\<open>for i in range(len(sol.critical_regions))\<close>.  The range is computed
  once, before the first iteration; the loop runs over it.  Each iteration reads
  \<^verbatim>\<open>feasible_combinations[index]\<close> and writes the three attributes of
  \<^verbatim>\<open>sol.critical_regions[i]\<close>; the list \<open>crs\<close> is \<^verbatim>\<open>sol.critical_regions\<close> as the
  iterations leave it.  In an assignment Python evaluates the right-hand side first, so
  \<^verbatim>\<open>feasible_combinations[index]\<close> is read before \<^verbatim>\<open>sol.critical_regions[i]\<close>.

  Regions are values here, objects in Python.  Every solution comes back from a worker
  process of the pool as an object of its own, so no region object belongs to two
  solutions; a region object that stands twice in one solution is written twice with the
  same three values.  The lists of values therefore follow the objects.
\<close>

fun annotate_regions ::
  "int list list \<Rightarrow> 'z program_scheme \<Rightarrow> nat \<Rightarrow> nat list \<Rightarrow> 'b critical_region list
     \<Rightarrow> error + 'b critical_region list" where
  "annotate_regions feasible_combinations program index [] crs = Inr crs"
| "annotate_regions feasible_combinations program index (i # rng) crs =
     (case getitem feasible_combinations index of
        Inl e \<Rightarrow> Inl e
      | Inr fixed \<Rightarrow>
         (case getitem crs i of
            Inl e \<Rightarrow> Inl e
          | Inr cr \<Rightarrow>
              annotate_regions feasible_combinations program index rng
                (crs[i := cr\<lparr>y_fixation := Some fixed,
                             y_indices := Some (binary_indices program),
                             x_indices := Some (cont_indices program)\<rparr>])))"

text \<open>
  The outer loop, \<^verbatim>\<open>for index, sol in enumerate(sols)\<close>: it annotates the regions of
  \<^verbatim>\<open>sol\<close> and appends the list to \<^verbatim>\<open>region_list\<close>.
\<close>

fun annotate_sols ::
  "int list list \<Rightarrow> 'z program_scheme \<Rightarrow> nat \<Rightarrow> ('c, 'b) solution list
     \<Rightarrow> 'b critical_region list list \<Rightarrow> error + 'b critical_region list list" where
  "annotate_sols feasible_combinations program index [] region_list = Inr region_list"
| "annotate_sols feasible_combinations program index (sol # sols) region_list =
     (case annotate_regions feasible_combinations program index
             [0 ..< length (critical_regions sol)] (critical_regions sol) of
        Inl e \<Rightarrow> Inl e
      | Inr crs \<Rightarrow>
          annotate_sols feasible_combinations program (Suc index) sols (region_list @ [crs]))"

subsection \<open>The bilinear check (lines 59 and 60)\<close>

text \<open>
  \<^verbatim>\<open>H[rows, :]\<close>: the rows of the matrix at the listed positions, in the listed order;
  numpy raises \<^verbatim>\<open>IndexError\<close> for a position outside the matrix.
\<close>

definition take_rows :: "real list list \<Rightarrow> nat list \<Rightarrow> error + real list list" where
  "take_rows M rows = comprehension (getitem M) rows"

text \<open>\<^verbatim>\<open>numpy.sum(numpy.abs(program.H[program.cont_indices, :]))\<close>.\<close>

definition sum_abs_H :: "'z program_scheme \<Rightarrow> error + real" where
  "sum_abs_H program =
     (case take_rows (H program) (cont_indices program) of
        Inl e \<Rightarrow> Inl e
      | Inr M \<Rightarrow> Inr (sum_list (map abs (concat M))))"

text \<open>
  \<^verbatim>\<open>numpy.isclose(a, b)\<close> with numpy's default tolerances \<open>rtol = 1e-05\<close> and
  \<open>atol = 1e-08\<close>: \<open>|a - b| \<le> atol + rtol * |b|\<close>.
\<close>

definition isclose :: "real \<Rightarrow> real \<Rightarrow> bool" where
  "isclose a b \<longleftrightarrow> \<bar>a - b\<bar> \<le> 1 / 10 ^ 8 + (1 / 10 ^ 5) * \<bar>b\<bar>"

text \<open>Lines 59 and 60: \<^verbatim>\<open>is_bilinear_terms = not numpy.isclose(sum_abs_H, 0)\<close>.\<close>

definition is_bilinear_terms :: "'z program_scheme \<Rightarrow> error + bool" where
  "is_bilinear_terms program =
     (case sum_abs_H program of
        Inl e \<Rightarrow> Inl e
      | Inr s \<Rightarrow> Inr (\<not> isclose s 0))"

subsection \<open>The function\<close>

text \<open>
  Lines 30 to 57: the worker count, the tree, the feasible combinations, the sub-problems,
  the pool and the dispatch, the annotation and the flattening.  The result is the trace of
  platform events together with \<^verbatim>\<open>collected_regions\<close>, or with the exception that ended
  the run.
\<close>

definition collected_regions ::
  "('z, 't, 'c, 'a, 'b) env \<Rightarrow> 'z program_scheme \<Rightarrow> int \<Rightarrow> 'a
     \<Rightarrow> event list \<times> (error + 'b critical_region list)" where
  "collected_regions env program num_cores cont_algorithm =
     (let (tr, num_cores) =
            (if num_cores = - 1 then ([Num_cpu_cores], num_cpu_cores env)
             else ([], num_cores))
      in
      case MITree env program 0 of
        Inl e \<Rightarrow> (tr, Inl e)
      | Inr tree \<Rightarrow>
      (case get_full_leafs env tree of
        Inl e \<Rightarrow> (tr, Inl e)
      | Inr leaf_nodes \<Rightarrow>
      (let feasible_combinations = map fixed_bins leaf_nodes in
       case comprehension (generate_substituted_problem env program) feasible_combinations of
        Inl e \<Rightarrow> (tr, Inl e)
      | Inr problems \<Rightarrow>
      (let pool = Pool num_cores;
           tr = tr @ [New_pool num_cores, Pool_map (length problems)]
       in
       case pool_map pool (\<lambda>x. solve_mpqp env x cont_algorithm) problems of
        Inl e \<Rightarrow> (tr, Inl e)
      | Inr sols \<Rightarrow>
      (case annotate_sols feasible_combinations program 0 sols [] of
        Inl e \<Rightarrow> (tr, Inl e)
      | Inr region_list \<Rightarrow> (tr, Inr (concat region_list)))))))"

text \<open>
  The condition of line 62: four signals, each of which rules the reduction out.
\<close>

definition may_overlap :: "'z program_scheme \<Rightarrow> bool \<Rightarrow> bool \<Rightarrow> bool" where
  "may_overlap program reduce_overlap bilinear \<longleftrightarrow>
     num_t program > 1 \<or> Q program \<noteq> None \<or> \<not> reduce_overlap \<or> bilinear"

text \<open>The whole function: lines 30 to 69.\<close>

definition solve_mpmiqp_enumeration ::
  "('z, 't, 'c, 'a, 'b) env \<Rightarrow> 'z program_scheme \<Rightarrow> int \<Rightarrow> 'a \<Rightarrow> bool
     \<Rightarrow> event list \<times> (error + ('z program_scheme, 'b) solution)" where
  "solve_mpmiqp_enumeration env program num_cores cont_algorithm reduce_overlap =
     (case collected_regions env program num_cores cont_algorithm of
        (tr, Inl e) \<Rightarrow> (tr, Inl e)
      | (tr, Inr collected) \<Rightarrow>
      (case is_bilinear_terms program of
        Inl e \<Rightarrow> (tr, Inl e)
      | Inr bilinear \<Rightarrow>
       if may_overlap program reduce_overlap bilinear
       then (tr, Inr \<lparr>solution_program = program, critical_regions = collected,
                       is_overlapping = True\<rparr>)
       else
        (case reduce_overlapping_critical_regions_1d env program collected of
           Inl e \<Rightarrow> (tr, Inl e)
         | Inr (reduced, overlaps_remaining) \<Rightarrow>
             (tr, Inr \<lparr>solution_program = program, critical_regions = reduced,
                       is_overlapping = overlaps_remaining\<rparr>))))"

subsection \<open>The annotation in the words of the specification\<close>

text \<open>
  The specification's Region Annotator: for every region, set \<open>y_fixation\<close> to the
  assignment that produced its parent solution, \<open>y_indices\<close> to the program's binary index
  list and \<open>x_indices\<close> to its continuous index list; the flattened sequence has all
  regions of sub-problem 0, then all of sub-problem 1, and so on.  These two definitions
  follow the specification, not the loops; the loops are compared with them below.
\<close>

definition annotate :: "int list \<Rightarrow> 'z program_scheme \<Rightarrow> 'b critical_region \<Rightarrow> 'b critical_region" where
  "annotate fixed program cr =
     cr\<lparr>y_fixation := Some fixed,
        y_indices := Some (binary_indices program),
        x_indices := Some (cont_indices program)\<rparr>"

definition flattened_annotated ::
  "'z program_scheme \<Rightarrow> int list list \<Rightarrow> ('c, 'b) solution list \<Rightarrow> 'b critical_region list" where
  "flattened_annotated program assignments sols =
     concat (map2 (\<lambda>fixed sol. map (annotate fixed program) (critical_regions sol))
               assignments sols)"

subsection \<open>A small instance\<close>

text \<open>
  The scenario of the specification: two binary variables and one continuous one, the
  feasible combinations \<open>[0,0]\<close> and \<open>[1,1]\<close>, a one-dimensional parameter, no quadratic
  term, a zero matrix \<open>H\<close>, and a continuous solver that returns two regions for every
  sub-problem.  A sub-problem is represented by the combination that was substituted, the
  body of a region by that combination and a name.
\<close>

definition scenario_program :: program where
  "scenario_program =
     \<lparr>H = [[0], [0], [0]], binary_indices = [1, 2], cont_indices = [0], num_t = 1, Q = None\<rparr>"

definition fresh_region :: "'b \<Rightarrow> 'b critical_region" where
  "fresh_region body = \<lparr>region = body, y_fixation = None, y_indices = None, x_indices = None\<rparr>"

definition scenario_env :: "(unit, unit, int list, unit, int list \<times> string) env" where
  "scenario_env =
     \<lparr>num_cpu_cores = 4,
      MITree = (\<lambda>program depth. Inr ()),
      get_full_leafs = (\<lambda>tree. Inr [\<lparr>fixed_bins = [0, 0]\<rparr>, \<lparr>fixed_bins = [1, 1]\<rparr>]),
      generate_substituted_problem = (\<lambda>program fixed. Inr fixed),
      solve_mpqp = (\<lambda>problem algorithm.
         Inr \<lparr>solution_program = problem,
              critical_regions = [fresh_region (problem, ''lower''), fresh_region (problem, ''upper'')],
              is_overlapping = False\<rparr>),
      reduce_overlapping_critical_regions_1d = (\<lambda>program regions. Inr (regions, False))\<rparr>"

text \<open>The four regions of the scenario, annotated and in dispatch order.\<close>

definition scenario_regions :: "(int list \<times> string) critical_region list" where
  "scenario_regions =
     [\<lparr>region = ([0, 0], ''lower''), y_fixation = Some [0, 0], y_indices = Some [1, 2], x_indices = Some [0]\<rparr>,
      \<lparr>region = ([0, 0], ''upper''), y_fixation = Some [0, 0], y_indices = Some [1, 2], x_indices = Some [0]\<rparr>,
      \<lparr>region = ([1, 1], ''lower''), y_fixation = Some [1, 1], y_indices = Some [1, 2], x_indices = Some [0]\<rparr>,
      \<lparr>region = ([1, 1], ''upper''), y_fixation = Some [1, 1], y_indices = Some [1, 2], x_indices = Some [0]\<rparr>]"

text \<open>
  The same instance with a reducer that drops the last region and reports that overlaps
  remain, as under dual degeneracy.
\<close>

definition degenerate_env :: "(unit, unit, int list, unit, int list \<times> string) env" where
  "degenerate_env =
     scenario_env\<lparr>reduce_overlapping_critical_regions_1d :=
       (\<lambda>program regions. Inr (butlast regions, True))\<rparr>"

text \<open>The same instance with a search tree that has no full leaf.\<close>

definition barren_env :: "(unit, unit, int list, unit, int list \<times> string) env" where
  "barren_env = scenario_env\<lparr>get_full_leafs := (\<lambda>tree. Inr [])\<rparr>"

text \<open>The same instance with a search tree whose construction raises.\<close>

definition broken_env :: "(unit, unit, int list, unit, int list \<times> string) env" where
  "broken_env = scenario_env\<lparr>MITree := (\<lambda>program depth. Inl (Raised ''no tree''))\<rparr>"

text \<open>The same instance with a continuous solver that raises on the sub-problem of \<open>[1,1]\<close>.\<close>

definition flaky_env :: "(unit, unit, int list, unit, int list \<times> string) env" where
  "flaky_env =
     scenario_env\<lparr>solve_mpqp := (\<lambda>problem algorithm.
       if problem = [1, 1] then Inl (Raised ''solver'')
       else solve_mpqp scenario_env problem algorithm)\<rparr>"



section \<open>Properties\<close>

subsection \<open>The loops compute the annotation of the specification\<close>

lemma getitem_in_range: "i < length xs \<Longrightarrow> getitem xs i = Inr (xs ! i)"
  by (simp add: getitem_def)

lemma annotate_regions_from:
  assumes "index < length fc"
  shows "k \<le> length crs \<Longrightarrow>
    annotate_regions fc p index [k ..< length crs] crs =
      Inr (take k crs @ map (annotate (fc ! index) p) (drop k crs))"
proof (induction "length crs - k" arbitrary: k crs)
  case 0
  then show ?case by simp
next
  case (Suc d)
  then have k: "k < length crs" by arith
  let ?cr = "annotate (fc ! index) p (crs ! k)"
  let ?crs = "crs[k := ?cr]"
  have d: "d = length ?crs - Suc k" using Suc.hyps by simp
  have le: "Suc k \<le> length ?crs" using k by simp
  have step: "annotate_regions fc p index [k ..< length crs] crs =
      annotate_regions fc p index [Suc k ..< length ?crs] ?crs"
    using k assms by (simp add: upt_conv_Cons getitem_in_range annotate_def)
  have "annotate_regions fc p index [Suc k ..< length ?crs] ?crs =
      Inr (take (Suc k) ?crs @ map (annotate (fc ! index) p) (drop (Suc k) ?crs))"
    by (rule Suc.hyps(1) [OF d le])
  also have "take (Suc k) ?crs = take k crs @ [?cr]"
    using k by (simp add: take_Suc_conv_app_nth)
  also have "drop (Suc k) ?crs = drop (Suc k) crs"
    by simp
  finally show ?case
    using k step by (simp add: Cons_nth_drop_Suc [symmetric])
qed

lemma annotate_regions_all:
  "index < length fc \<Longrightarrow>
    annotate_regions fc p index [0 ..< length crs] crs = Inr (map (annotate (fc ! index) p) crs)"
  using annotate_regions_from [of index fc 0 crs p] by simp

lemma annotate_sols_eq:
  "index + length sols \<le> length fc \<Longrightarrow>
    annotate_sols fc p index sols rl =
      Inr (rl @ map2 (\<lambda>fixed sol. map (annotate fixed p) (critical_regions sol)) (drop index fc) sols)"
proof (induction sols arbitrary: index rl)
  case Nil
  then show ?case by simp
next
  case (Cons sol sols)
  then have i: "index < length fc" and rest: "Suc index + length sols \<le> length fc" by simp_all
  have "drop index fc = fc ! index # drop (Suc index) fc"
    using i by (simp add: Cons_nth_drop_Suc)
  then show ?case
    using Cons.IH [OF rest] i by (simp add: annotate_regions_all)
qed

lemma pool_map_Inr_D:
  "pool_map pl f xs = Inr ys \<Longrightarrow> list_all2 (\<lambda>x y. f x = Inr y) xs ys"
  by (induction xs arbitrary: ys) (auto split: sum.splits)

lemma comprehension_Inr_D:
  "comprehension f xs = Inr ys \<Longrightarrow> list_all2 (\<lambda>x y. f x = Inr y) xs ys"
  by (induction xs arbitrary: ys) (auto split: sum.splits)

lemma pool_map_Inl:
  "pool_map pl f xs = Inl e \<Longrightarrow> \<exists>j < length xs. f (xs ! j) = Inl e"
proof (induction xs)
  case Nil
  then show ?case by simp
next
  case (Cons x xs)
  show ?case
  proof (cases "f x")
    case (Inl e')
    with Cons.prems have "f ((x # xs) ! 0) = Inl e" by simp
    then show ?thesis by blast
  next
    case (Inr y)
    with Cons.prems have "pool_map pl f xs = Inl e" by (simp split: sum.splits)
    then obtain j where "j < length xs" "f (xs ! j) = Inl e" using Cons.IH by blast
    then have "Suc j < length (x # xs) \<and> f ((x # xs) ! Suc j) = Inl e" by simp
    then show ?thesis by blast
  qed
qed

lemma pool_map_fails:
  "j < length xs \<Longrightarrow> f (xs ! j) = Inl e \<Longrightarrow> \<exists>e'. pool_map pl f xs = Inl e'"
proof (induction xs arbitrary: j)
  case Nil
  then show ?case by simp
next
  case (Cons x xs)
  show ?case
  proof (cases j)
    case 0
    with Cons.prems show ?thesis by simp
  next
    case (Suc j')
    with Cons.prems have "\<exists>e'. pool_map pl f xs = Inl e'" using Cons.IH [of j'] by simp
    then show ?thesis by (auto split: sum.splits)
  qed
qed

lemma pool_map_length: "pool_map pl f xs = Inr ys \<Longrightarrow> length ys = length xs"
  by (drule pool_map_Inr_D) (simp add: list_all2_lengthD)

lemma comprehension_length: "comprehension f xs = Inr ys \<Longrightarrow> length ys = length xs"
  by (drule comprehension_Inr_D) (simp add: list_all2_lengthD)

lemma annotate_sols_flattened:
  assumes "length sols = length fc"
  shows "annotate_sols fc p 0 sols [] =
    Inr (map2 (\<lambda>fixed sol. map (annotate fixed p) (critical_regions sol)) fc sols)"
  using annotate_sols_eq [of 0 sols fc p "[]"] assms by simp

subsection \<open>The function, result and trace apart\<close>

lemma collected_regions_result:
  "snd (collected_regions env p n alg) =
     (case MITree env p 0 of Inl e \<Rightarrow> Inl e | Inr tree \<Rightarrow>
      (case get_full_leafs env tree of Inl e \<Rightarrow> Inl e | Inr leaf_nodes \<Rightarrow>
      (case comprehension (generate_substituted_problem env p) (map fixed_bins leaf_nodes) of
         Inl e \<Rightarrow> Inl e
       | Inr problems \<Rightarrow>
      (case pool_map (Pool (if n = - 1 then num_cpu_cores env else n))
              (\<lambda>x. solve_mpqp env x alg) problems of
         Inl e \<Rightarrow> Inl e
       | Inr sols \<Rightarrow> Inr (flattened_annotated p (map fixed_bins leaf_nodes) sols)))))"
proof -
  have flat: "annotate_sols (map fixed_bins leaf_nodes) p 0 sols [] =
      Inr (map2 (\<lambda>fixed sol. map (annotate fixed p) (critical_regions sol))
             (map fixed_bins leaf_nodes) sols)"
    if "comprehension (generate_substituted_problem env p) (map fixed_bins leaf_nodes) = Inr problems"
      and "pool_map pl (\<lambda>x. solve_mpqp env x alg) problems = Inr sols"
    for leaf_nodes :: "leaf list" and problems sols pl
    using that by (intro annotate_sols_flattened) (auto dest!: comprehension_length pool_map_length)
  show ?thesis
    by (auto simp: collected_regions_def Let_def flattened_annotated_def flat split: sum.splits)
qed

lemma collected_regions_trace:
  "fst (collected_regions env p n alg) =
     (if n = - 1 then [Num_cpu_cores] else []) @
     (case MITree env p 0 of Inl e \<Rightarrow> [] | Inr tree \<Rightarrow>
      (case get_full_leafs env tree of Inl e \<Rightarrow> [] | Inr leaf_nodes \<Rightarrow>
      (case comprehension (generate_substituted_problem env p) (map fixed_bins leaf_nodes) of
         Inl e \<Rightarrow> []
       | Inr problems \<Rightarrow>
           [New_pool (if n = - 1 then num_cpu_cores env else n), Pool_map (length problems)])))"
  by (auto simp: collected_regions_def Let_def split: sum.splits)

lemma solve_result:
  "snd (solve_mpmiqp_enumeration env p n alg ro) =
     (case snd (collected_regions env p n alg) of
        Inl e \<Rightarrow> Inl e
      | Inr collected \<Rightarrow>
       (case is_bilinear_terms p of
          Inl e \<Rightarrow> Inl e
        | Inr bilinear \<Rightarrow>
           if may_overlap p ro bilinear
           then Inr \<lparr>solution_program = p, critical_regions = collected, is_overlapping = True\<rparr>
           else
            (case reduce_overlapping_critical_regions_1d env p collected of
               Inl e \<Rightarrow> Inl e
             | Inr (reduced, overlaps_remaining) \<Rightarrow>
                 Inr \<lparr>solution_program = p, critical_regions = reduced,
                      is_overlapping = overlaps_remaining\<rparr>)))"
  by (auto simp: solve_mpmiqp_enumeration_def split: sum.splits prod.splits)

lemma solve_trace:
  "fst (solve_mpmiqp_enumeration env p n alg ro) = fst (collected_regions env p n alg)"
  by (auto simp: solve_mpmiqp_enumeration_def split: sum.splits prod.splits)

lemma sum_list_abs_zero:
  "\<forall>x \<in> set xs. x = (0::real) \<Longrightarrow> sum_list (map abs xs) = 0"
  by (induction xs) auto

lemma sum_abs_zero:
  "\<forall>row \<in> set M. \<forall>x \<in> set row. x = (0::real) \<Longrightarrow> sum_list (map abs (concat M)) = 0"
  by (rule sum_list_abs_zero) auto

subsection \<open>What a returned Solution says about the run\<close>

lemma solve_returns:
  assumes "snd (solve_mpmiqp_enumeration env p n alg ro) = Inr s"
  shows "\<exists>collected bilinear.
    snd (collected_regions env p n alg) = Inr collected \<and>
    is_bilinear_terms p = Inr bilinear \<and>
    solution_program s = p \<and>
    (if may_overlap p ro bilinear
     then critical_regions s = collected \<and> is_overlapping s
     else reduce_overlapping_critical_regions_1d env p collected =
            Inr (critical_regions s, is_overlapping s))"
proof (cases "snd (collected_regions env p n alg)")
  case (Inl e)
  with assms show ?thesis by (simp add: solve_result)
next
  case coll: (Inr collected)
  show ?thesis
  proof (cases "is_bilinear_terms p")
    case (Inl e)
    with assms coll show ?thesis by (simp add: solve_result)
  next
    case bil: (Inr bilinear)
    show ?thesis
    proof (cases "may_overlap p ro bilinear")
      case True
      with assms coll bil have "s = \<lparr>solution_program = p, critical_regions = collected,
          is_overlapping = True\<rparr>"
        by (simp add: solve_result)
      with coll bil True show ?thesis by simp
    next
      case False
      with assms coll bil obtain reduced overlaps_remaining where
        "reduce_overlapping_critical_regions_1d env p collected = Inr (reduced, overlaps_remaining)"
        "s = \<lparr>solution_program = p, critical_regions = reduced,
          is_overlapping = overlaps_remaining\<rparr>"
        by (auto simp: solve_result split: sum.splits)
      with coll bil False show ?thesis by simp
    qed
  qed
qed

lemma collected_returns:
  assumes "snd (collected_regions env p n alg) = Inr collected"
  shows "\<exists>tree leaf_nodes problems sols.
    MITree env p 0 = Inr tree \<and>
    get_full_leafs env tree = Inr leaf_nodes \<and>
    comprehension (generate_substituted_problem env p) (map fixed_bins leaf_nodes) = Inr problems \<and>
    pool_map (Pool (if n = - 1 then num_cpu_cores env else n))
       (\<lambda>x. solve_mpqp env x alg) problems = Inr sols \<and>
    collected = flattened_annotated p (map fixed_bins leaf_nodes) sols"
  using assms by (auto simp: collected_regions_result split: sum.splits)

subsection \<open>The pool's map is the sequential comprehension\<close>

lemma pool_map_sequential: "pool_map pl f xs = comprehension f xs"
  by (induction xs) (auto split: sum.splits)

subsection \<open>The annotation writes three attributes and nothing else\<close>

lemma annotated_regions_frame:
  "list_all2 (\<lambda>r' r. \<exists>fixed. r' = annotate fixed p r) (map (annotate fixed p) crs) crs"
  by (induction crs) auto

lemma flattened_annotated_frame:
  "length fcs = length sols \<Longrightarrow>
    list_all2 (\<lambda>r' r. \<exists>fixed. r' = annotate fixed p r)
      (flattened_annotated p fcs sols) (concat (map critical_regions sols))"
proof (induction fcs sols rule: list_induct2)
  case Nil
  then show ?case by (simp add: flattened_annotated_def)
next
  case (Cons fixed fcs sol sols)
  then show ?case
    using annotated_regions_frame [of p fixed "critical_regions sol"]
    by (simp add: flattened_annotated_def list_all2_appendI)
qed

text \<open>The facts that evaluate the function on the instance.\<close>

lemmas scenario_simps =
  scenario_env_def scenario_program_def scenario_regions_def degenerate_env_def fresh_region_def
  solve_result collected_regions_result collected_regions_trace solve_trace
  flattened_annotated_def annotate_def
  is_bilinear_terms_def sum_abs_H_def take_rows_def getitem_def isclose_def may_overlap_def

section \<open>The claims\<close>

subsection \<open>C1: a disqualifying signal returns the flattened list with the flag set\<close>

text \<open>
  C1.  Whenever the bilinear check of line 59 has produced its sum \<open>s\<close> and one of the four
  signals holds (parameter dimension above 1, a \<^verbatim>\<open>Q\<close> attribute, reduction disabled by the
  caller, or \<open>s\<close> not close to zero), the function returns exactly what lines 30 to 57
  produce: their exception if they raise, and otherwise the Solution whose region list is
  the flattened annotated list, unreduced, with \<open>is_overlapping = True\<close>.
\<close>

theorem C1_overlapping_without_reduction:
  assumes "sum_abs_H program = Inr s"
    and "num_t program > 1 \<or> Q program \<noteq> None \<or> \<not> reduce_overlap \<or> \<not> isclose s 0"
  shows "snd (solve_mpmiqp_enumeration env program num_cores cont_algorithm reduce_overlap) =
    (case snd (collected_regions env program num_cores cont_algorithm) of
       Inl e \<Rightarrow> Inl e
     | Inr collected \<Rightarrow>
         Inr \<lparr>solution_program = program, critical_regions = collected, is_overlapping = True\<rparr>)"
  using assms by (simp add: solve_result is_bilinear_terms_def may_overlap_def split: sum.splits)

theorem C1_overlapping_without_reduction_witness:
  "sum_abs_H (scenario_program\<lparr>H := [[1 / 2], [0], [0]]\<rparr>) = Inr (1 / 2) \<and>
   \<not> isclose (1 / 2) 0 \<and>
   snd (solve_mpmiqp_enumeration scenario_env (scenario_program\<lparr>H := [[1 / 2], [0], [0]]\<rparr>) 3 () True) =
     Inr \<lparr>solution_program = scenario_program\<lparr>H := [[1 / 2], [0], [0]]\<rparr>,
          critical_regions = scenario_regions, is_overlapping = True\<rparr>"
proof -
  have s: "sum_abs_H (scenario_program\<lparr>H := [[1 / 2], [0], [0]]\<rparr>) = Inr (1 / 2)"
    by (simp add: scenario_program_def sum_abs_H_def take_rows_def getitem_def)
  have d: "\<not> isclose (1 / 2) 0"
    by (simp add: isclose_def)
  have c: "snd (collected_regions scenario_env (scenario_program\<lparr>H := [[1 / 2], [0], [0]]\<rparr>) 3 ()) =
      Inr scenario_regions"
    by (simp add: scenario_env_def scenario_program_def scenario_regions_def fresh_region_def
        collected_regions_result flattened_annotated_def annotate_def)
  show ?thesis
    using C1_overlapping_without_reduction
        [OF s, where reduce_overlap = True and env = scenario_env and num_cores = 3
           and cont_algorithm = "()"] s d c
    by simp
qed

subsection \<open>C2: the eligible case passes the reducer's list and flag through\<close>

text \<open>
  C2.  For a program with a one-dimensional parameter, no \<^verbatim>\<open>Q\<close> attribute and an all-zero
  block of continuous rows of \<open>H\<close>, called with reduction enabled, the function hands the
  flattened annotated list to the 1-D reducer and returns a Solution with the reducer's
  list and the reducer's \<open>overlaps_remaining\<close> flag, whatever that flag is; an exception of
  the reducer is the exception of the function.
\<close>

theorem C2_reducer_pass_through:
  assumes "num_t program = 1" and "Q program = None" and "reduce_overlap"
    and "take_rows (H program) (cont_indices program) = Inr M"
    and "\<forall>row \<in> set M. \<forall>x \<in> set row. x = 0"
  shows "snd (solve_mpmiqp_enumeration env program num_cores cont_algorithm reduce_overlap) =
    (case snd (collected_regions env program num_cores cont_algorithm) of
       Inl e \<Rightarrow> Inl e
     | Inr collected \<Rightarrow>
        (case reduce_overlapping_critical_regions_1d env program collected of
           Inl e \<Rightarrow> Inl e
         | Inr (reduced, overlaps_remaining) \<Rightarrow>
             Inr \<lparr>solution_program = program, critical_regions = reduced,
                  is_overlapping = overlaps_remaining\<rparr>))"
proof -
  have "sum_abs_H program = Inr 0"
    using assms(4,5) by (simp add: sum_abs_H_def sum_abs_zero)
  then have "is_bilinear_terms program = Inr False"
    by (simp add: is_bilinear_terms_def isclose_def)
  moreover have "\<not> may_overlap program reduce_overlap False"
    using assms(1-3) by (simp add: may_overlap_def)
  ultimately show ?thesis
    by (simp add: solve_result split: sum.splits)
qed

theorem C2_reducer_pass_through_witness:
  "num_t scenario_program = 1 \<and> Q scenario_program = None \<and>
   take_rows (H scenario_program) (cont_indices scenario_program) = Inr [[0]] \<and>
   snd (solve_mpmiqp_enumeration degenerate_env scenario_program (- 1) () True) =
     Inr \<lparr>solution_program = scenario_program,
          critical_regions = butlast scenario_regions, is_overlapping = True\<rparr>"
proof -
  have n: "num_t scenario_program = 1" and q: "Q scenario_program = None"
    by (simp_all add: scenario_program_def)
  have r: "take_rows (H scenario_program) (cont_indices scenario_program) = Inr [[0]]"
    by (simp add: scenario_program_def take_rows_def getitem_def)
  have z: "\<forall>row \<in> set [[0::real]]. \<forall>x \<in> set row. x = 0"
    by simp
  have c: "snd (collected_regions degenerate_env scenario_program (- 1) ()) = Inr scenario_regions"
    by (simp add: degenerate_env_def scenario_env_def scenario_program_def scenario_regions_def
        fresh_region_def collected_regions_result flattened_annotated_def annotate_def)
  show ?thesis
    using C2_reducer_pass_through
        [OF n q TrueI r z, where env = degenerate_env and num_cores = "- 1"
           and cont_algorithm = "()"] n q r c
    by (simp add: degenerate_env_def scenario_env_def)
qed

subsection \<open>C3: every region carries the assignment of its sub-problem, in dispatch order\<close>

text \<open>
  C3.  When the function returns a Solution, the tree gave leaves \<open>leaf_nodes\<close>, the
  \<open>i\<close>-th sub-problem was generated from the \<open>i\<close>-th leaf's assignment, the \<open>i\<close>-th dispatched
  result is the solve of the \<open>i\<close>-th sub-problem, and the flattened list is, sub-problem by
  sub-problem and region by region, each region of the \<open>i\<close>-th result with \<open>y_fixation\<close> set to
  the \<open>i\<close>-th assignment, \<open>y_indices\<close> to the program's binary index list and \<open>x_indices\<close> to
  its continuous index list (\<open>annotate\<close>).  That list is the region list of the Solution
  when a signal rules reduction out, and the list the reducer received otherwise.
\<close>

theorem C3_annotation_follows_dispatch_order:
  assumes "snd (solve_mpmiqp_enumeration env program num_cores cont_algorithm reduce_overlap) = Inr s"
  shows "\<exists>tree leaf_nodes problems sols bilinear.
    MITree env program 0 = Inr tree \<and>
    get_full_leafs env tree = Inr leaf_nodes \<and>
    length problems = length leaf_nodes \<and>
    length sols = length leaf_nodes \<and>
    (\<forall>i < length leaf_nodes.
       generate_substituted_problem env program (fixed_bins (leaf_nodes ! i)) = Inr (problems ! i) \<and>
       solve_mpqp env (problems ! i) cont_algorithm = Inr (sols ! i)) \<and>
    snd (collected_regions env program num_cores cont_algorithm) =
      Inr (concat (map2 (\<lambda>leaf sol. map (annotate (fixed_bins leaf) program) (critical_regions sol))
                     leaf_nodes sols)) \<and>
    is_bilinear_terms program = Inr bilinear \<and>
    (if may_overlap program reduce_overlap bilinear
     then critical_regions s =
       concat (map2 (\<lambda>leaf sol. map (annotate (fixed_bins leaf) program) (critical_regions sol))
                 leaf_nodes sols)
     else \<exists>overlaps_remaining.
       reduce_overlapping_critical_regions_1d env program
         (concat (map2 (\<lambda>leaf sol. map (annotate (fixed_bins leaf) program) (critical_regions sol))
                    leaf_nodes sols)) = Inr (critical_regions s, overlaps_remaining))"
proof -
  let ?n = "if num_cores = - 1 then num_cpu_cores env else num_cores"
  from assms obtain collected bilinear where
    coll: "snd (collected_regions env program num_cores cont_algorithm) = Inr collected"
    and bil: "is_bilinear_terms program = Inr bilinear"
    and ret: "if may_overlap program reduce_overlap bilinear
       then critical_regions s = collected
       else \<exists>overlaps_remaining.
         reduce_overlapping_critical_regions_1d env program collected =
           Inr (critical_regions s, overlaps_remaining)"
    by (auto simp: solve_result split: sum.splits if_splits prod.splits)
  from coll obtain tree leaf_nodes problems sols where
    tree: "MITree env program 0 = Inr tree"
    and leafs: "get_full_leafs env tree = Inr leaf_nodes"
    and probs: "comprehension (generate_substituted_problem env program)
        (map fixed_bins leaf_nodes) = Inr problems"
    and sols: "pool_map (Pool ?n) (\<lambda>x. solve_mpqp env x cont_algorithm) problems = Inr sols"
    and flat: "collected = flattened_annotated program (map fixed_bins leaf_nodes) sols"
    by (auto simp: collected_regions_result split: sum.splits)
  have p2: "list_all2 (\<lambda>fixed problem. generate_substituted_problem env program fixed = Inr problem)
      (map fixed_bins leaf_nodes) problems"
    using probs by (rule comprehension_Inr_D)
  have s2: "list_all2 (\<lambda>problem sol. solve_mpqp env problem cont_algorithm = Inr sol) problems sols"
    using sols by (rule pool_map_Inr_D)
  have lp: "length problems = length leaf_nodes"
    using p2 by (auto dest: list_all2_lengthD)
  have ls: "length sols = length leaf_nodes"
    using s2 lp by (auto dest: list_all2_lengthD)
  have each: "\<forall>i < length leaf_nodes.
       generate_substituted_problem env program (fixed_bins (leaf_nodes ! i)) = Inr (problems ! i) \<and>
       solve_mpqp env (problems ! i) cont_algorithm = Inr (sols ! i)"
  proof (intro allI impI)
    fix i assume i: "i < length leaf_nodes"
    have "generate_substituted_problem env program (map fixed_bins leaf_nodes ! i) = Inr (problems ! i)"
      using p2 i by (auto dest: list_all2_nthD)
    moreover have "solve_mpqp env (problems ! i) cont_algorithm = Inr (sols ! i)"
      using s2 i lp by (auto dest: list_all2_nthD)
    ultimately show "generate_substituted_problem env program (fixed_bins (leaf_nodes ! i)) = Inr (problems ! i) \<and>
       solve_mpqp env (problems ! i) cont_algorithm = Inr (sols ! i)"
      using i by simp
  qed
  have flat': "collected =
      concat (map2 (\<lambda>leaf sol. map (annotate (fixed_bins leaf) program) (critical_regions sol))
                leaf_nodes sols)"
    unfolding flat flattened_annotated_def
    by (simp add: zip_map1 case_prod_unfold comp_def)
  show ?thesis
    using tree leafs lp ls each coll bil ret unfolding flat' by blast
qed

theorem C3_annotation_follows_dispatch_order_witness:
  "snd (solve_mpmiqp_enumeration scenario_env (scenario_program\<lparr>num_t := 2\<rparr>) 1 () True) =
     Inr \<lparr>solution_program = scenario_program\<lparr>num_t := 2\<rparr>,
          critical_regions = scenario_regions, is_overlapping = True\<rparr> \<and>
   (\<exists>tree leaf_nodes problems sols bilinear.
    MITree scenario_env (scenario_program\<lparr>num_t := 2\<rparr>) 0 = Inr tree \<and>
    get_full_leafs scenario_env tree = Inr leaf_nodes \<and>
    length problems = length leaf_nodes \<and>
    length sols = length leaf_nodes \<and>
    (\<forall>i < length leaf_nodes.
       generate_substituted_problem scenario_env (scenario_program\<lparr>num_t := 2\<rparr>)
         (fixed_bins (leaf_nodes ! i)) = Inr (problems ! i) \<and>
       solve_mpqp scenario_env (problems ! i) () = Inr (sols ! i)) \<and>
    snd (collected_regions scenario_env (scenario_program\<lparr>num_t := 2\<rparr>) 1 ()) =
      Inr (concat (map2 (\<lambda>leaf sol. map (annotate (fixed_bins leaf) (scenario_program\<lparr>num_t := 2\<rparr>))
                                    (critical_regions sol))
                     leaf_nodes sols)) \<and>
    is_bilinear_terms (scenario_program\<lparr>num_t := 2\<rparr>) = Inr bilinear \<and>
    (if may_overlap (scenario_program\<lparr>num_t := 2\<rparr>) True bilinear
     then scenario_regions =
       concat (map2 (\<lambda>leaf sol. map (annotate (fixed_bins leaf) (scenario_program\<lparr>num_t := 2\<rparr>))
                                  (critical_regions sol))
                 leaf_nodes sols)
     else \<exists>overlaps_remaining.
       reduce_overlapping_critical_regions_1d scenario_env (scenario_program\<lparr>num_t := 2\<rparr>)
         (concat (map2 (\<lambda>leaf sol. map (annotate (fixed_bins leaf) (scenario_program\<lparr>num_t := 2\<rparr>))
                                     (critical_regions sol))
                    leaf_nodes sols)) = Inr (scenario_regions, overlaps_remaining)))"
proof -
  have r: "snd (solve_mpmiqp_enumeration scenario_env (scenario_program\<lparr>num_t := 2\<rparr>) 1 () True) =
     Inr \<lparr>solution_program = scenario_program\<lparr>num_t := 2\<rparr>,
          critical_regions = scenario_regions, is_overlapping = True\<rparr>"
    by (simp add: scenario_simps)
  show ?thesis
    by (rule conjI [OF r C3_annotation_follows_dispatch_order [OF r, unfolded solution.select_convs]])
qed

subsection \<open>C4: no feasible combination\<close>

text \<open>
  C4, as the specification states it: with zero feasible binary combinations the function
  returns a Solution with an empty region list and \<open>is_overlapping = False\<close>.  The function
  sets the flag from the shape of the program, not from the regions: with a
  two-dimensional parameter and a tree without leaves it returns the empty list with
  \<open>is_overlapping = True\<close>.
\<close>

theorem C4_empty_result_flag_counterexample:
  "get_full_leafs barren_env () = Inr [] \<and>
   snd (solve_mpmiqp_enumeration barren_env (scenario_program\<lparr>num_t := 2\<rparr>) 1 () True) =
     Inr \<lparr>solution_program = scenario_program\<lparr>num_t := 2\<rparr>,
          critical_regions = [], is_overlapping = True\<rparr>"
  by (simp add: barren_env_def scenario_simps)

text \<open>
  C4, amended.  With zero feasible binary combinations, and the bilinear check of line 59
  having produced its sum, the region list handed on is empty.  If one of the four signals
  holds the function returns the Solution with the empty list and \<open>is_overlapping = True\<close>;
  otherwise it returns what the 1-D reducer returns for the empty list, its list and its
  flag, and raises what the reducer raises.
\<close>

theorem C4_no_feasible_combination:
  assumes "MITree env program 0 = Inr tree"
    and "get_full_leafs env tree = Inr []"
    and "sum_abs_H program = Inr s"
  shows "snd (solve_mpmiqp_enumeration env program num_cores cont_algorithm reduce_overlap) =
    (if num_t program > 1 \<or> Q program \<noteq> None \<or> \<not> reduce_overlap \<or> \<not> isclose s 0
     then Inr \<lparr>solution_program = program, critical_regions = [], is_overlapping = True\<rparr>
     else
      (case reduce_overlapping_critical_regions_1d env program [] of
         Inl e \<Rightarrow> Inl e
       | Inr (reduced, overlaps_remaining) \<Rightarrow>
           Inr \<lparr>solution_program = program, critical_regions = reduced,
                is_overlapping = overlaps_remaining\<rparr>))"
proof -
  have "snd (collected_regions env program num_cores cont_algorithm) = Inr []"
    using assms(1,2) by (simp add: collected_regions_result flattened_annotated_def)
  then show ?thesis
    using assms(3) by (simp add: solve_result is_bilinear_terms_def may_overlap_def)
qed

theorem C4_no_feasible_combination_witness:
  "MITree barren_env scenario_program 0 = Inr () \<and>
   get_full_leafs barren_env () = Inr [] \<and>
   sum_abs_H scenario_program = Inr 0 \<and>
   snd (solve_mpmiqp_enumeration barren_env scenario_program (- 1) () False) =
     Inr \<lparr>solution_program = scenario_program, critical_regions = [], is_overlapping = True\<rparr> \<and>
   snd (solve_mpmiqp_enumeration barren_env scenario_program (- 1) () True) =
     Inr \<lparr>solution_program = scenario_program, critical_regions = [], is_overlapping = False\<rparr>"
proof -
  have t: "MITree barren_env scenario_program 0 = Inr ()"
    and l: "get_full_leafs barren_env () = Inr []"
    by (simp_all add: barren_env_def scenario_env_def)
  have s: "sum_abs_H scenario_program = Inr 0"
    by (simp add: scenario_program_def sum_abs_H_def take_rows_def getitem_def)
  show ?thesis
    using t l s
      C4_no_feasible_combination [OF t l s, where num_cores = "- 1" and cont_algorithm = "()"
        and reduce_overlap = False]
      C4_no_feasible_combination [OF t l s, where num_cores = "- 1" and cont_algorithm = "()"
        and reduce_overlap = True]
    by (simp add: barren_env_def scenario_env_def scenario_program_def isclose_def)
qed

subsection \<open>C5: the invariant of the annotated regions\<close>




subsection \<open>C6: the quadratic signal is the presence of the attribute\<close>

text \<open>
  C6.  The quadratic signal of line 62 is \<^verbatim>\<open>hasattr(program, 'Q')\<close> and nothing else.  A
  program with the attribute, whatever its value (a zero matrix included), gets the
  flattened list back with \<open>is_overlapping = True\<close>.  For a program without it the signal
  is false, and the other three signals alone decide between that result and the
  reducer's, whatever else the program holds.
\<close>

theorem C6_quadratic_marker_decides:
  assumes "sum_abs_H program = Inr s"
  shows
   "(Q program \<noteq> None \<longrightarrow>
      snd (solve_mpmiqp_enumeration env program num_cores cont_algorithm reduce_overlap) =
        (case snd (collected_regions env program num_cores cont_algorithm) of
           Inl e \<Rightarrow> Inl e
         | Inr collected \<Rightarrow>
             Inr \<lparr>solution_program = program, critical_regions = collected,
                  is_overlapping = True\<rparr>)) \<and>
    (Q program = None \<longrightarrow>
      snd (solve_mpmiqp_enumeration env program num_cores cont_algorithm reduce_overlap) =
        (case snd (collected_regions env program num_cores cont_algorithm) of
           Inl e \<Rightarrow> Inl e
         | Inr collected \<Rightarrow>
            if num_t program > 1 \<or> \<not> reduce_overlap \<or> \<not> isclose s 0
            then Inr \<lparr>solution_program = program, critical_regions = collected,
                      is_overlapping = True\<rparr>
            else
             (case reduce_overlapping_critical_regions_1d env program collected of
                Inl e \<Rightarrow> Inl e
              | Inr (reduced, overlaps_remaining) \<Rightarrow>
                  Inr \<lparr>solution_program = program, critical_regions = reduced,
                       is_overlapping = overlaps_remaining\<rparr>)))"
  using assms by (simp add: solve_result is_bilinear_terms_def may_overlap_def split: sum.splits)

theorem C6_quadratic_marker_decides_witness:
  "sum_abs_H (scenario_program\<lparr>Q := Some [[0, 0], [0, 0]]\<rparr>) = Inr 0 \<and>
   snd (solve_mpmiqp_enumeration scenario_env (scenario_program\<lparr>Q := Some [[0, 0], [0, 0]]\<rparr>)
          1 () True) =
     Inr \<lparr>solution_program = scenario_program\<lparr>Q := Some [[0, 0], [0, 0]]\<rparr>,
          critical_regions = scenario_regions, is_overlapping = True\<rparr> \<and>
   sum_abs_H scenario_program = Inr 0 \<and>
   snd (solve_mpmiqp_enumeration scenario_env scenario_program 1 () True) =
     Inr \<lparr>solution_program = scenario_program,
          critical_regions = scenario_regions, is_overlapping = False\<rparr>"
proof -
  have q: "sum_abs_H (scenario_program\<lparr>Q := Some [[0, 0], [0, 0]]\<rparr>) = Inr 0"
    and l: "sum_abs_H scenario_program = Inr 0"
    by (simp_all add: scenario_program_def sum_abs_H_def take_rows_def getitem_def)
  have cq: "snd (collected_regions scenario_env (scenario_program\<lparr>Q := Some [[0, 0], [0, 0]]\<rparr>) 1 ()) =
      Inr scenario_regions"
    and cl: "snd (collected_regions scenario_env scenario_program 1 ()) = Inr scenario_regions"
    by (simp_all add: scenario_env_def scenario_program_def scenario_regions_def fresh_region_def
        collected_regions_result flattened_annotated_def annotate_def)
  show ?thesis
    using q l cq cl
      C6_quadratic_marker_decides [OF q, where env = scenario_env and num_cores = 1
        and cont_algorithm = "()" and reduce_overlap = True]
      C6_quadratic_marker_decides [OF l, where env = scenario_env and num_cores = 1
        and cont_algorithm = "()" and reduce_overlap = True]
    by (simp add: scenario_env_def scenario_program_def isclose_def)
qed

subsection \<open>C7: the worker count\<close>

text \<open>
  C7.  The trace of platform events of every run: with the sentinel \<open>-1\<close> the core count is
  queried exactly once, first of all, and the pool, if the run gets as far as the dispatch,
  is created with the count the platform reported; with any other value the platform is
  not queried and the pool is created with the value as given.  The pool is created once
  and the sub-problems are dispatched to it once.
\<close>

theorem C7_worker_count_resolution:
  "fst (solve_mpmiqp_enumeration env program num_cores cont_algorithm reduce_overlap) =
     (if num_cores = - 1 then [Num_cpu_cores] else []) @
     (case MITree env program 0 of
        Inl e \<Rightarrow> []
      | Inr tree \<Rightarrow>
       (case get_full_leafs env tree of
          Inl e \<Rightarrow> []
        | Inr leaf_nodes \<Rightarrow>
         (case comprehension (generate_substituted_problem env program)
                 (map fixed_bins leaf_nodes) of
            Inl e \<Rightarrow> []
          | Inr problems \<Rightarrow>
              [New_pool (if num_cores = - 1 then num_cpu_cores env else num_cores),
               Pool_map (length problems)])))"
  by (simp only: solve_trace collected_regions_trace)

theorem C7_worker_count_resolution_witness:
  "fst (solve_mpmiqp_enumeration scenario_env scenario_program (- 1) () True) =
     [Num_cpu_cores, New_pool 4, Pool_map 2] \<and>
   fst (solve_mpmiqp_enumeration scenario_env scenario_program 7 () True) =
     [New_pool 7, Pool_map 2] \<and>
   fst (solve_mpmiqp_enumeration broken_env
          scenario_program (- 1) () True) = [Num_cpu_cores]"
  using
    C7_worker_count_resolution [of scenario_env scenario_program "- 1" "()" True]
    C7_worker_count_resolution [of scenario_env scenario_program 7 "()" True]
    C7_worker_count_resolution
      [of broken_env
          scenario_program "- 1" "()" True]
  by (simp add: scenario_env_def broken_env_def)

subsection \<open>C8: the Solution does not depend on the worker count\<close>

text \<open>
  C8.  Two runs that differ only in the worker count end alike: the same exception, or
  the same Solution (the same regions in the same order with the same annotations, and the
  same flag).  The sentinel \<open>-1\<close> and the count 1 are an instance.  This rests on the pool's
  map as the specification describes it, \<open>pool_map\<close>.
\<close>

theorem C8_result_independent_of_worker_count:
  "snd (solve_mpmiqp_enumeration env program num_cores cont_algorithm reduce_overlap) =
   snd (solve_mpmiqp_enumeration env program num_cores' cont_algorithm reduce_overlap)"
proof -
  have "snd (collected_regions env program num_cores cont_algorithm) =
      snd (collected_regions env program num_cores' cont_algorithm)"
    by (simp only: collected_regions_result pool_map_sequential)
  then show ?thesis
    by (simp only: solve_result)
qed

theorem C8_result_independent_of_worker_count_witness:
  "snd (solve_mpmiqp_enumeration scenario_env scenario_program (- 1) () True) =
   snd (solve_mpmiqp_enumeration scenario_env scenario_program 1 () True) \<and>
   snd (solve_mpmiqp_enumeration scenario_env scenario_program 1 () True) =
     Inr \<lparr>solution_program = scenario_program,
          critical_regions = scenario_regions, is_overlapping = False\<rparr>"
proof -
  have "snd (solve_mpmiqp_enumeration scenario_env scenario_program 1 () True) =
     Inr \<lparr>solution_program = scenario_program,
          critical_regions = scenario_regions, is_overlapping = False\<rparr>"
    by (simp add: scenario_simps)
  then show ?thesis
    using C8_result_independent_of_worker_count
      [of scenario_env scenario_program "- 1" "()" True 1]
    by simp
qed

subsection \<open>C9: failures propagate\<close>

text \<open>
  C9.  If the construction of the search tree raises, the function raises the same
  exception.  If the tree, its leaves and the substitutions succeed and the continuous
  solve of some sub-problem raises, the function raises the exception of a failing solve.
  In both cases no Solution is returned, partial or otherwise.
\<close>

theorem C9_failures_propagate:
  "(MITree env program 0 = Inl e \<longrightarrow>
      snd (solve_mpmiqp_enumeration env program num_cores cont_algorithm reduce_overlap) = Inl e) \<and>
   (MITree env program 0 = Inr tree \<and>
    get_full_leafs env tree = Inr leaf_nodes \<and>
    comprehension (generate_substituted_problem env program) (map fixed_bins leaf_nodes) =
      Inr problems \<and>
    j < length problems \<and>
    solve_mpqp env (problems ! j) cont_algorithm = Inl e \<longrightarrow>
      (\<exists>j' e'. j' < length problems \<and>
         solve_mpqp env (problems ! j') cont_algorithm = Inl e' \<and>
         snd (solve_mpmiqp_enumeration env program num_cores cont_algorithm reduce_overlap) = Inl e'))"
proof (intro conjI impI)
  assume "MITree env program 0 = Inl e"
  then show "snd (solve_mpmiqp_enumeration env program num_cores cont_algorithm reduce_overlap) = Inl e"
    by (simp add: solve_result collected_regions_result)
next
  let ?pl = "Pool (if num_cores = - 1 then num_cpu_cores env else num_cores)"
  let ?f = "\<lambda>x. solve_mpqp env x cont_algorithm"
  assume a: "MITree env program 0 = Inr tree \<and>
    get_full_leafs env tree = Inr leaf_nodes \<and>
    comprehension (generate_substituted_problem env program) (map fixed_bins leaf_nodes) =
      Inr problems \<and>
    j < length problems \<and>
    solve_mpqp env (problems ! j) cont_algorithm = Inl e"
  then obtain e' where e': "pool_map ?pl ?f problems = Inl e'"
    using pool_map_fails [of j problems ?f e ?pl] by blast
  then obtain j' where "j' < length problems" "?f (problems ! j') = Inl e'"
    using pool_map_Inl by blast
  moreover have "snd (solve_mpmiqp_enumeration env program num_cores cont_algorithm reduce_overlap) = Inl e'"
    using a e' by (simp add: solve_result collected_regions_result)
  ultimately show "\<exists>j' e'. j' < length problems \<and>
         solve_mpqp env (problems ! j') cont_algorithm = Inl e' \<and>
         snd (solve_mpmiqp_enumeration env program num_cores cont_algorithm reduce_overlap) = Inl e'"
    by blast
qed

theorem C9_failures_propagate_witness:
  "MITree broken_env scenario_program 0 =
     Inl (Raised ''no tree'') \<and>
   snd (solve_mpmiqp_enumeration broken_env
          scenario_program 1 () True) = Inl (Raised ''no tree'') \<and>
   MITree flaky_env scenario_program 0 = Inr () \<and>
   get_full_leafs flaky_env () = Inr [\<lparr>fixed_bins = [0, 0]\<rparr>, \<lparr>fixed_bins = [1, 1]\<rparr>] \<and>
   comprehension (generate_substituted_problem flaky_env scenario_program)
     (map fixed_bins [\<lparr>fixed_bins = [0, 0]\<rparr>, \<lparr>fixed_bins = [1, 1]\<rparr>]) = Inr [[0, 0], [1, 1]] \<and>
   solve_mpqp flaky_env ([[0, 0], [1, 1]] ! 1) () = Inl (Raised ''solver'') \<and>
   snd (solve_mpmiqp_enumeration flaky_env scenario_program 1 () True) = Inl (Raised ''solver'')"
proof -
  have t: "MITree broken_env scenario_program 0 = Inl (Raised ''no tree'')"
    by (simp add: broken_env_def)
  have a: "MITree flaky_env scenario_program 0 = Inr () \<and>
    get_full_leafs flaky_env () = Inr [\<lparr>fixed_bins = [0, 0]\<rparr>, \<lparr>fixed_bins = [1, 1]\<rparr>] \<and>
    comprehension (generate_substituted_problem flaky_env scenario_program)
      (map fixed_bins [\<lparr>fixed_bins = [0, 0]\<rparr>, \<lparr>fixed_bins = [1, 1]\<rparr>]) = Inr [[0, 0], [1, 1]] \<and>
    1 < length [[0, 0], [1, 1 :: int]] \<and>
    solve_mpqp flaky_env ([[0, 0], [1, 1]] ! 1) () = Inl (Raised ''solver'')"
    by (simp add: flaky_env_def scenario_env_def)
  note c9 = C9_failures_propagate
  have first: "snd (solve_mpmiqp_enumeration broken_env scenario_program 1 () True) =
      Inl (Raised ''no tree'')"
    using c9 [where env = broken_env and program = scenario_program and e = "Raised ''no tree''"
          and num_cores = 1 and cont_algorithm = "()" and reduce_overlap = True] t
    by blast
  have "\<exists>j' e'. j' < length [[0, 0], [1, 1 :: int]] \<and>
         solve_mpqp flaky_env ([[0, 0], [1, 1]] ! j') () = Inl e' \<and>
         snd (solve_mpmiqp_enumeration flaky_env scenario_program 1 () True) = Inl e'"
    using c9 [where env = flaky_env and program = scenario_program and tree = "()"
          and leaf_nodes = "[\<lparr>fixed_bins = [0, 0]\<rparr>, \<lparr>fixed_bins = [1, 1]\<rparr>]"
          and problems = "[[0, 0], [1, 1]]" and j = 1 and e = "Raised ''solver''"
          and num_cores = 1 and cont_algorithm = "()" and reduce_overlap = True] a
    by blast
  then obtain j' e' where j': "j' < length [[0, 0], [1, 1 :: int]]"
    and f: "solve_mpqp flaky_env ([[0, 0], [1, 1]] ! j') () = Inl e'"
    and r: "snd (solve_mpmiqp_enumeration flaky_env scenario_program 1 () True) = Inl e'"
    by blast
  from j' have "j' = 0 \<or> j' = 1" by auto
  with f have "e' = Raised ''solver''"
    by (auto simp: flaky_env_def scenario_env_def)
  with r have second: "snd (solve_mpmiqp_enumeration flaky_env scenario_program 1 () True) =
      Inl (Raised ''solver'')"
    by simp
  show ?thesis
    using t a first second by simp
qed

subsection \<open>C10: the program is kept, the regions are only annotated\<close>

text \<open>
  C10.  The function has no statement that assigns to the program: every collaborator is
  called with the program the caller gave, and a returned Solution holds that program,
  every field as it was.  The only assignments are the three of the annotation loop.  When
  a Solution is returned, the flattened list matches, position by position, the regions
  the continuous solves returned: each is the solver's region with \<open>y_fixation\<close>,
  \<open>y_indices\<close> and \<open>x_indices\<close> written once and its body untouched.
\<close>

theorem C10_program_kept_regions_only_annotated:
  fixes env :: "('z, 't, 'c, 'a, 'b) env"
  assumes "snd (solve_mpmiqp_enumeration env program num_cores cont_algorithm reduce_overlap) = Inr s"
  shows "solution_program s = program \<and>
    (\<exists>tree leaf_nodes problems sols collected.
       MITree env program 0 = Inr tree \<and>
       get_full_leafs env tree = Inr leaf_nodes \<and>
       comprehension (generate_substituted_problem env program) (map fixed_bins leaf_nodes) =
         Inr problems \<and>
       comprehension (\<lambda>x. solve_mpqp env x cont_algorithm) problems = Inr sols \<and>
       snd (collected_regions env program num_cores cont_algorithm) = Inr collected \<and>
       list_all2
         (\<lambda>r' r. region r' = region r \<and>
            (\<exists>fixed. r' = r\<lparr>y_fixation := Some fixed,
                             y_indices := Some (binary_indices program),
                             x_indices := Some (cont_indices program)\<rparr>))
         collected (concat (map critical_regions sols)))"
proof -
  from solve_returns [OF assms] obtain collected where
    coll: "snd (collected_regions env program num_cores cont_algorithm) = Inr collected"
    and prog: "solution_program s = program"
    by blast
  from collected_returns [OF coll] obtain tree leaf_nodes problems
      and sols :: "('c, 'b) solution list" where
    tree: "MITree env program 0 = Inr tree"
    and leafs: "get_full_leafs env tree = Inr leaf_nodes"
    and probs: "comprehension (generate_substituted_problem env program)
        (map fixed_bins leaf_nodes) = Inr problems"
    and sols: "pool_map (Pool (if num_cores = - 1 then num_cpu_cores env else num_cores))
        (\<lambda>x. solve_mpqp env x cont_algorithm) problems = Inr sols"
    and flat: "collected = flattened_annotated program (map fixed_bins leaf_nodes) sols"
    by blast
  have seq: "comprehension (\<lambda>x. solve_mpqp env x cont_algorithm) problems = Inr sols"
    using sols by (simp only: pool_map_sequential)
  have "length (map fixed_bins leaf_nodes) = length sols"
    using probs sols by (auto dest!: comprehension_length pool_map_length)
  then have "list_all2 (\<lambda>r' r. \<exists>fixed. r' = annotate fixed program r)
      collected (concat (map critical_regions sols))"
    unfolding flat by (rule flattened_annotated_frame)
  then have "list_all2
         (\<lambda>r' r. region r' = region r \<and>
            (\<exists>fixed. r' = r\<lparr>y_fixation := Some fixed,
                             y_indices := Some (binary_indices program),
                             x_indices := Some (cont_indices program)\<rparr>))
         collected (concat (map critical_regions sols))"
    by (rule list_all2_mono) (auto simp: annotate_def)
  with prog tree leafs probs seq coll show ?thesis
    by blast
qed

theorem C10_program_kept_regions_only_annotated_witness:
  "snd (solve_mpmiqp_enumeration scenario_env scenario_program 1 () True) =
     Inr \<lparr>solution_program = scenario_program,
          critical_regions = scenario_regions, is_overlapping = False\<rparr> \<and>
   solution_program \<lparr>solution_program = scenario_program,
          critical_regions = scenario_regions, is_overlapping = False\<rparr> = scenario_program \<and>
   (\<exists>tree leaf_nodes problems sols collected.
       MITree scenario_env scenario_program 0 = Inr tree \<and>
       get_full_leafs scenario_env tree = Inr leaf_nodes \<and>
       comprehension (generate_substituted_problem scenario_env scenario_program)
         (map fixed_bins leaf_nodes) = Inr problems \<and>
       comprehension (\<lambda>x. solve_mpqp scenario_env x ()) problems = Inr sols \<and>
       snd (collected_regions scenario_env scenario_program 1 ()) = Inr collected \<and>
       list_all2
         (\<lambda>r' r. region r' = region r \<and>
            (\<exists>fixed. r' = r\<lparr>y_fixation := Some fixed,
                             y_indices := Some (binary_indices scenario_program),
                             x_indices := Some (cont_indices scenario_program)\<rparr>))
         collected (concat (map critical_regions sols)))"
proof -
  have r: "snd (solve_mpmiqp_enumeration scenario_env scenario_program 1 () True) =
     Inr \<lparr>solution_program = scenario_program,
          critical_regions = scenario_regions, is_overlapping = False\<rparr>"
    by (simp add: scenario_simps)
  show ?thesis
    by (rule conjI [OF r C10_program_kept_regions_only_annotated [OF r]])
qed

end
